theory Spec2Isabelle
  imports Complex_Main "HOL-Library.Word" "HOL-Library.AList" "HOL-Library.Multiset"
begin

unbundle bit_operations_syntax

section \<open>Link protocol engine (lora\_protocol.py)\<close>

subsection \<open>Data model\<close>

text \<open>
  Python exceptions that the modelled code can raise. Every raise of the source is a
  branch of the model returning one of these.
\<close>

datatype error =
    TypeError
  | KeyError
  | UnicodeEncodeError
  | UnicodeDecodeError
  | SerialException
  | NodeNotFound
  | NetworkXNoPath
  | NetworkXError
  | Empty

datatype MessagePriority = HIGH | MEDIUM | LOW

fun priority_value :: "MessagePriority \<Rightarrow> int" where
  "priority_value HIGH = 1"
| "priority_value MEDIUM = 2"
| "priority_value LOW = 3"

text \<open>
  A Python \<open>str\<close> is a sequence of Unicode code points; \<open>bytes\<close> is a sequence of
  octets. Clock readings (\<open>time.time()\<close>) and signal-to-noise ratios are floats,
  modelled as reals.
\<close>

type_synonym message = "nat list"
type_synonym byte = "8 word"

text \<open>
  \<open>send_message\<close> names a message \<open>f"{time.time()}_{hash(message) & 0xFFFFFFFF}"\<close>.
  The formatted string determines, and is determined by, the clock reading and the
  masked hash, so an id is modelled as that pair.
\<close>

type_synonym message_id = "real \<times> int"

record LoRaPacket =
  message_id :: message_id
  fragment_id :: int
  total_fragments :: int
  priority :: MessagePriority
  payload :: "byte list"
  crc :: int
  rssi :: int
  snr :: real
  timestamp :: real

text \<open>
  The handler's mutable attributes. Dictionaries whose iteration order or length the
  code reads (\<open>pending_acks\<close>, the per-message fragment dictionaries) are association
  lists in insertion order; the others are maps. Each priority queue is the list that
  \<open>queue.PriorityQueue\<close> keeps as a binary heap. \<open>serial_out\<close> is the sequence of
  packets written to the serial port. \<open>str_hash\<close> is the interpreter's \<open>hash\<close> on
  strings, fixed for the life of the process.
\<close>

record handler =
  send_queue :: "MessagePriority \<Rightarrow> (int \<times> LoRaPacket) list"
  receive_queue :: "message list"
  pending_acks :: "(message_id \<times> real) list"
  received_fragments :: "message_id \<rightharpoonup> (int \<times> LoRaPacket) list"
  message_buffer :: "message_id \<rightharpoonup> message"
  stats_rssi :: "int list"
  stats_snr :: "real list"
  stats_packet_loss :: nat
  stats_retransmissions :: nat
  serial_out :: "LoRaPacket list"
  str_hash :: "message \<Rightarrow> int"

definition MAX_PACKET_SIZE :: nat where "MAX_PACKET_SIZE = 230"
definition HEADER_SIZE :: nat where "HEADER_SIZE = 20"
definition RETRY_LIMIT :: nat where "RETRY_LIMIT = 3"
definition ACK_TIMEOUT :: real where "ACK_TIMEOUT = 2"

subsection \<open>zlib.crc32: the IEEE CRC-32\<close>

fun crc_bits :: "nat \<Rightarrow> 32 word \<Rightarrow> 32 word" where
  "crc_bits 0 c = c"
| "crc_bits (Suc n) c =
     crc_bits n (if c AND 1 = 1 then drop_bit 1 c XOR 0xEDB88320 else drop_bit 1 c)"

definition crc_byte :: "32 word \<Rightarrow> byte \<Rightarrow> 32 word" where
  "crc_byte c b = crc_bits 8 (c XOR ucast b)"

definition crc32 :: "byte list \<Rightarrow> int" where
  "crc32 bs = uint (foldl crc_byte 0xFFFFFFFF bs XOR 0xFFFFFFFF)"

subsection \<open>str.encode() and bytes.decode(): strict UTF-8\<close>

definition is_cont :: "nat \<Rightarrow> bool" where
  "is_cont b \<longleftrightarrow> 128 \<le> b \<and> b < 192"

definition encode_cp :: "nat \<Rightarrow> nat list option" where
  "encode_cp c =
     (if c < 128 then Some [c]
      else if c < 2048 then Some [192 + c div 64, 128 + c mod 64]
      else if c < 65536 then
        (if 55296 \<le> c \<and> c \<le> 57343 then None
         else Some [224 + c div 4096, 128 + (c div 64) mod 64, 128 + c mod 64])
      else if c < 1114112 then
        Some [240 + c div 262144, 128 + (c div 4096) mod 64,
              128 + (c div 64) mod 64, 128 + c mod 64]
      else None)"

fun encode_cps :: "nat list \<Rightarrow> nat list option" where
  "encode_cps [] = Some []"
| "encode_cps (c # cs) =
     (case encode_cp c of
        None \<Rightarrow> None
      | Some bs \<Rightarrow> (case encode_cps cs of None \<Rightarrow> None | Some r \<Rightarrow> Some (bs @ r)))"

definition encode :: "message \<Rightarrow> error + byte list" where
  "encode m = (case encode_cps m of
                 None \<Rightarrow> Inl UnicodeEncodeError
               | Some bs \<Rightarrow> Inr (map of_nat bs))"

fun decode_bytes :: "nat list \<Rightarrow> nat list option" where
  "decode_bytes [] = Some []"
| "decode_bytes (b0 # bs) =
     (if b0 < 128 then map_option (Cons b0) (decode_bytes bs)
      else if 194 \<le> b0 \<and> b0 < 224 then
        (case bs of
           b1 # r \<Rightarrow>
             if is_cont b1
             then map_option (Cons ((b0 - 192) * 64 + (b1 - 128))) (decode_bytes r)
             else None
         | _ \<Rightarrow> None)
      else if 224 \<le> b0 \<and> b0 < 240 then
        (case bs of
           b1 # b2 # r \<Rightarrow>
             (let c = (b0 - 224) * 4096 + (b1 - 128) * 64 + (b2 - 128)
              in if is_cont b1 \<and> is_cont b2 \<and> 2048 \<le> c \<and> \<not> (55296 \<le> c \<and> c \<le> 57343)
                 then map_option (Cons c) (decode_bytes r)
                 else None)
         | _ \<Rightarrow> None)
      else if 240 \<le> b0 \<and> b0 < 245 then
        (case bs of
           b1 # b2 # b3 # r \<Rightarrow>
             (let c = (b0 - 240) * 262144 + (b1 - 128) * 4096 + (b2 - 128) * 64 + (b3 - 128)
              in if is_cont b1 \<and> is_cont b2 \<and> is_cont b3 \<and> 65536 \<le> c \<and> c < 1114112
                 then map_option (Cons c) (decode_bytes r)
                 else None)
         | _ \<Rightarrow> None)
      else None)"

definition decode :: "byte list \<Rightarrow> error + message" where
  "decode bs = (case decode_bytes (map unat bs) of
                  None \<Rightarrow> Inl UnicodeDecodeError
                | Some m \<Rightarrow> Inr m)"

subsection \<open>Fragmentation\<close>

definition payload_size :: nat where
  "payload_size = MAX_PACKET_SIZE - HEADER_SIZE"

definition make_fragment :: "message_id \<Rightarrow> byte list \<Rightarrow> nat \<Rightarrow> real \<Rightarrow> nat \<Rightarrow> LoRaPacket" where
  "make_fragment mid data n_total now i =
     (let start = i * payload_size;
          fragment = take payload_size (drop start data)
      in \<lparr> message_id = mid, fragment_id = int i, total_fragments = int n_total,
           priority = MEDIUM, payload = fragment, crc = crc32 fragment,
           rssi = 0, snr = 0, timestamp = now \<rparr>)"

definition fragment_message :: "message_id \<Rightarrow> message \<Rightarrow> real \<Rightarrow> error + LoRaPacket list" where
  "fragment_message mid msg now =
     (case encode msg of
        Inl e \<Rightarrow> Inl e
      | Inr data \<Rightarrow>
          (let n_total = (length data + payload_size - 1) div payload_size
           in Inr (map (make_fragment mid data n_total now) [0..<n_total])))"

subsection \<open>Receive path\<close>

definition reassemble_message :: "message_id \<Rightarrow> handler \<Rightarrow> handler" where
  "reassemble_message mid st =
     (case received_fragments st mid of
        None \<Rightarrow> st
      | Some fragments \<Rightarrow>
          (case those (map (\<lambda>i. map_option payload (map_of fragments (int i)))
                           [0..<length fragments]) of
             None \<Rightarrow> st
           | Some ordered_fragments \<Rightarrow>
               (case decode (concat ordered_fragments) of
                  Inl e \<Rightarrow> st
                | Inr msg \<Rightarrow>
                    st\<lparr> receive_queue := receive_queue st @ [msg],
                        received_fragments := (received_fragments st)(mid := None) \<rparr>)))"

definition last100 :: "'a list \<Rightarrow> 'a list" where
  "last100 xs = drop (length xs - 100) xs"

definition handle_packet :: "LoRaPacket \<Rightarrow> handler \<Rightarrow> handler" where
  "handle_packet packet st =
     (if crc32 (payload packet) \<noteq> crc packet
      then st\<lparr> stats_packet_loss := stats_packet_loss st + 1 \<rparr>
      else
        (let rs = stats_rssi st @ [rssi packet];
             ss = stats_snr st @ [snr packet];
             st1 = (if length rs > 100
                    then st\<lparr> stats_rssi := last100 rs, stats_snr := last100 ss \<rparr>
                    else st\<lparr> stats_rssi := rs, stats_snr := ss \<rparr>);
             mid = message_id packet
         in if mid \<in> fst ` set (pending_acks st1)
            then st1\<lparr> pending_acks := AList.delete mid (pending_acks st1) \<rparr>
            else
              (let fragments = (case received_fragments st1 mid of
                                  None \<Rightarrow> []
                                | Some fs \<Rightarrow> fs);
                   fragments' = AList.update (fragment_id packet) packet fragments;
                   st2 = st1\<lparr> received_fragments :=
                                 (received_fragments st1)(mid \<mapsto> fragments') \<rparr>
               in if int (length fragments') = total_fragments packet
                  then reassemble_message mid st2
                  else st2)))"

text \<open>
  \<open>_receive_loop\<close> hands every parsed packet to \<open>_handle_packet\<close>, in order of arrival.
\<close>

definition receive_packets :: "LoRaPacket list \<Rightarrow> handler \<Rightarrow> handler" where
  "receive_packets packets st = foldl (\<lambda>s packet. handle_packet packet s) st packets"

text \<open>
  What \<open>_send_packet\<close> writes of a packet and \<open>_parse_packet\<close> reads back: the fields
  \<open>id\<close>, \<open>frag\<close>, \<open>total\<close>, \<open>payload\<close> and \<open>crc\<close> of the JSON line. The receiver sets
  \<open>rssi\<close>, \<open>snr\<close> and \<open>timestamp\<close> itself.
\<close>

definition on_wire :: "LoRaPacket \<Rightarrow> message_id \<times> int \<times> int \<times> byte list \<times> int" where
  "on_wire packet =
     (message_id packet, fragment_id packet, total_fragments packet, payload packet, crc packet)"

text \<open>The fragments stored so far for a message id: empty when the id has no buffer.\<close>

definition buffer_of :: "handler \<Rightarrow> message_id \<Rightarrow> (int \<times> LoRaPacket) list" where
  "buffer_of st mid = (case received_fragments st mid of None \<Rightarrow> [] | Some fs \<Rightarrow> fs)"

subsection \<open>queue.PriorityQueue: a binary heap of (priority value, packet) tuples\<close>

type_synonym item = "int \<times> LoRaPacket"

text \<open>
  Python compares tuples item by item: the first pair of unequal items decides. The
  priority values are ints. \<open>LoRaPacket\<close> is a dataclass with the generated \<open>__eq__\<close>
  (field-wise equality) and no ordering, so \<open><\<close> on two unequal packets raises
  \<open>TypeError\<close>; on equal tuples \<open><\<close> is false.
\<close>

definition item_lt :: "item \<Rightarrow> item \<Rightarrow> error + bool" where
  "item_lt x y =
     (if fst x \<noteq> fst y then Inr (fst x < fst y)
      else if snd x = snd y then Inr False
      else Inl TypeError)"

text \<open>
  \<open>heapq\<close> as CPython implements it (module \<open>_heapq\<close>): \<open>siftdown\<close> moves the item
  at \<open>pos\<close> towards the root, \<open>siftup\<close> moves the item at \<open>pos\<close> down to a leaf and
  sifts it back. Both swap in place and stop at the first failing comparison, leaving
  the list as it is at that moment.
\<close>

function siftdown :: "item list \<Rightarrow> nat \<Rightarrow> nat \<Rightarrow> error option \<times> item list" where
  "siftdown heap startpos pos =
     (if pos > startpos then
        (let parentpos = (pos - 1) div 2
         in case item_lt (heap ! pos) (heap ! parentpos) of
              Inl e \<Rightarrow> (Some e, heap)
            | Inr False \<Rightarrow> (None, heap)
            | Inr True \<Rightarrow>
                siftdown (heap[parentpos := heap ! pos, pos := heap ! parentpos])
                         startpos parentpos)
      else (None, heap))"
  by pat_completeness auto
termination
  by (relation "measure (\<lambda>(heap, startpos, pos). pos)") auto

function siftup_loop :: "item list \<Rightarrow> nat \<Rightarrow> error option \<times> item list \<times> nat" where
  "siftup_loop heap pos =
     (let endpos = length heap; limit = endpos div 2
      in if pos < limit then
           (let childpos = 2 * pos + 1
            in case (if childpos + 1 < endpos
                     then item_lt (heap ! childpos) (heap ! (childpos + 1))
                     else Inr True) of
                 Inl e \<Rightarrow> (Some e, heap, pos)
               | Inr c \<Rightarrow>
                   (let childpos' = (if c then childpos else childpos + 1)
                    in siftup_loop (heap[childpos' := heap ! pos, pos := heap ! childpos'])
                                   childpos'))
         else (None, heap, pos))"
  by pat_completeness auto
termination
  by (relation "measure (\<lambda>(heap, pos). length heap - pos)") (auto simp: Let_def)

definition siftup :: "item list \<Rightarrow> nat \<Rightarrow> error option \<times> item list" where
  "siftup heap pos =
     (case siftup_loop heap pos of
        (Some e, heap', _) \<Rightarrow> (Some e, heap')
      | (None, heap', pos') \<Rightarrow> siftdown heap' pos pos')"

definition heappush :: "item list \<Rightarrow> item \<Rightarrow> error option \<times> item list" where
  "heappush heap x = siftdown (heap @ [x]) 0 (length heap)"

definition heappop :: "item list \<Rightarrow> (error + item) \<times> item list" where
  "heappop heap =
     (let lastelt = last heap; heap1 = butlast heap
      in if heap1 = [] then (Inr lastelt, heap1)
         else
           (let returnitem = hd heap1
            in case siftup (heap1[0 := lastelt]) 0 of
                 (Some e, heap2) \<Rightarrow> (Inl e, heap2)
               | (None, heap2) \<Rightarrow> (Inr returnitem, heap2)))"

definition get_nowait :: "item list \<Rightarrow> (error + item) \<times> item list" where
  "get_nowait heap = (if heap = [] then (Inl Empty, heap) else heappop heap)"

subsection \<open>Sending\<close>

fun queue_fragments ::
  "MessagePriority \<Rightarrow> LoRaPacket list \<Rightarrow> handler \<Rightarrow> error option \<times> handler" where
  "queue_fragments prio [] st = (None, st)"
| "queue_fragments prio (fragment # rest) st =
     (case heappush (send_queue st prio) (priority_value prio, fragment) of
        (Some e, heap) \<Rightarrow> (Some e, st\<lparr> send_queue := (send_queue st)(prio := heap) \<rparr>)
      | (None, heap) \<Rightarrow>
          queue_fragments prio rest (st\<lparr> send_queue := (send_queue st)(prio := heap) \<rparr>))"

text \<open>
  \<open>send_message\<close> at clock reading \<open>now\<close>. The \<open>except\<close> clause logs and re-raises,
  so an exception leaves whatever state the body had reached.
\<close>

definition new_message_id :: "handler \<Rightarrow> message \<Rightarrow> real \<Rightarrow> message_id" where
  "new_message_id st msg now = (now, str_hash st msg AND 4294967295)"

definition send_message ::
  "message \<Rightarrow> MessagePriority \<Rightarrow> real \<Rightarrow> handler \<Rightarrow> (error + message_id) \<times> handler" where
  "send_message msg prio now st =
     (let mid = new_message_id st msg now
      in case fragment_message mid msg now of
           Inl e \<Rightarrow> (Inl e, st)
         | Inr fragments \<Rightarrow>
             (case queue_fragments prio fragments
                     (st\<lparr> message_buffer := (message_buffer st)(mid \<mapsto> msg) \<rparr>) of
                (Some e, st') \<Rightarrow> (Inl e, st')
              | (None, st') \<Rightarrow> (Inr mid, st')))"

text \<open>
  \<open>_send_packet\<close>: \<open>serial_ok\<close> says whether the write to the serial port succeeds. When
  it fails the handler puts the packet back on the queue of the packet's own priority
  field; an exception of that \<open>put\<close> leaves the function.
\<close>

definition send_packet ::
  "LoRaPacket \<Rightarrow> real \<Rightarrow> bool \<Rightarrow> handler \<Rightarrow> error option \<times> handler" where
  "send_packet packet now serial_ok st =
     (if serial_ok
      then (None, st\<lparr> serial_out := serial_out st @ [packet],
                      pending_acks := AList.update (message_id packet) now (pending_acks st) \<rparr>)
      else
        (case heappush (send_queue st (priority packet))
                       (priority_value (priority packet), packet) of
           (err, heap) \<Rightarrow>
             (err, st\<lparr> send_queue := (send_queue st)(priority packet := heap) \<rparr>)))"

text \<open>
  \<open>_check_pending_acks\<close> walks a snapshot of \<open>pending_acks\<close>. An exception of the
  nested \<open>send_message\<close> is not caught here: it ends the sweep before the \<open>del\<close>.
\<close>

fun sweep :: "(message_id \<times> real) list \<Rightarrow> real \<Rightarrow> handler \<Rightarrow> error option \<times> handler" where
  "sweep [] current_time st = (None, st)"
| "sweep ((mid, ts) # rest) current_time st =
     (if current_time - ts > ACK_TIMEOUT then
        (case (case message_buffer st mid of
                 Some msg \<Rightarrow>
                   (case send_message msg HIGH current_time
                           (st\<lparr> stats_retransmissions := stats_retransmissions st + 1 \<rparr>) of
                      (Inl e, st') \<Rightarrow> (Some e, st')
                    | (Inr _, st') \<Rightarrow> (None, st'))
               | None \<Rightarrow> (None, st)) of
           (Some e, st') \<Rightarrow> (Some e, st')
         | (None, st') \<Rightarrow>
             (if mid \<in> fst ` set (pending_acks st')
              then sweep rest current_time
                     (st'\<lparr> pending_acks := AList.delete mid (pending_acks st') \<rparr>)
              else (Some KeyError, st')))
      else sweep rest current_time st)"

definition check_pending_acks :: "real \<Rightarrow> handler \<Rightarrow> error option \<times> handler" where
  "check_pending_acks current_time st = sweep (pending_acks st) current_time st"

text \<open>
  One iteration of \<open>_send_loop\<close>: the sweep, then one packet from the first non-empty
  queue in the order of the enumeration. The loop's \<open>except\<close> clause logs the
  exception and goes on; the result reports it beside the state reached.
\<close>

fun serve ::
  "MessagePriority list \<Rightarrow> real \<Rightarrow> bool \<Rightarrow> handler \<Rightarrow> error option \<times> handler" where
  "serve [] now serial_ok st = (None, st)"
| "serve (prio # rest) now serial_ok st =
     (if send_queue st prio \<noteq> [] then
        (case get_nowait (send_queue st prio) of
           (Inl e, heap) \<Rightarrow> (Some e, st\<lparr> send_queue := (send_queue st)(prio := heap) \<rparr>)
         | (Inr (_, packet), heap) \<Rightarrow>
             send_packet packet now serial_ok
               (st\<lparr> send_queue := (send_queue st)(prio := heap) \<rparr>))
      else serve rest now serial_ok st)"

definition send_loop_iteration :: "real \<Rightarrow> bool \<Rightarrow> handler \<Rightarrow> error option \<times> handler" where
  "send_loop_iteration now serial_ok st =
     (case check_pending_acks now st of
        (Some e, st') \<Rightarrow> (Some e, st')
      | (None, st') \<Rightarrow> serve [HIGH, MEDIUM, LOW] now serial_ok st')"

section \<open>Concrete scenarios\<close>

text \<open>A handler as \<open>__init__\<close> leaves it: empty queues, dictionaries and statistics.\<close>

definition idle_handler :: handler where
  "idle_handler =
     \<lparr> send_queue = (\<lambda>_. []), receive_queue = [], pending_acks = [],
       received_fragments = Map.empty, message_buffer = Map.empty, stats_rssi = [],
       stats_snr = [], stats_packet_loss = 0, stats_retransmissions = 0, serial_out = [],
       str_hash = (\<lambda>m. int (length m)) \<rparr>"

text \<open>The frame of the repository's CRC test: payload \<open>test\<close>, declared CRC 12345.\<close>

definition bad_frame :: LoRaPacket where
  "bad_frame =
     \<lparr> message_id = (0, 7), fragment_id = 0, total_fragments = 1, priority = MEDIUM,
       payload = [116, 101, 115, 116], crc = 12345, rssi = - 60, snr = 10, timestamp = 5 \<rparr>"

text \<open>
  A message of 211 letters \<open>A\<close>, one byte more than a packet carries, and its two
  fragments as a peer reads them off the air: with its own signal readings and
  clock, and in reverse order.
\<close>

definition long_message :: message where
  "long_message = replicate 211 65"

definition long_fragments :: "LoRaPacket list" where
  "long_fragments = (case fragment_message (1, 211) long_message 1 of
                       Inr frs \<Rightarrow> frs
                     | Inl e \<Rightarrow> [])"

definition as_received :: "LoRaPacket \<Rightarrow> LoRaPacket" where
  "as_received packet = packet\<lparr> rssi := - 70, snr := 9, timestamp := 8 \<rparr>"

(*PROPERTIES*)
section \<open>Verified properties\<close>

subsection \<open>CRC rejection\<close>

lemma crc32_test: "crc32 [116, 101, 115, 116] = 3632233996"
  by code_simp

text \<open>
  Claim C6. A frame whose declared CRC differs from the CRC-32 of its payload adds one
  to the packet-loss counter and changes nothing else in the handler: no reassembly
  buffer, no signal sample, no pending tracker, nothing delivered upward.
\<close>

theorem crc_mismatch_only_counts:
  assumes "crc32 (payload packet) \<noteq> crc packet"
  shows "handle_packet packet st = st\<lparr> stats_packet_loss := stats_packet_loss st + 1 \<rparr>
       \<and> stats_packet_loss (handle_packet packet st) = stats_packet_loss st + 1
       \<and> received_fragments (handle_packet packet st) = received_fragments st
       \<and> stats_rssi (handle_packet packet st) = stats_rssi st
       \<and> stats_snr (handle_packet packet st) = stats_snr st
       \<and> pending_acks (handle_packet packet st) = pending_acks st
       \<and> receive_queue (handle_packet packet st) = receive_queue st"
  using assms by (simp add: handle_packet_def)

theorem crc_mismatch_only_counts_witness:
  "crc32 (payload bad_frame) \<noteq> crc bad_frame
   \<and> handle_packet bad_frame idle_handler = idle_handler\<lparr> stats_packet_loss := 1 \<rparr>
   \<and> received_fragments (handle_packet bad_frame idle_handler) (0, 7) = None"
proof -
  have h: "crc32 (payload bad_frame) \<noteq> crc bad_frame"
    by (simp add: bad_frame_def crc32_test)
  from crc_mismatch_only_counts [OF h, of idle_handler] show ?thesis
    using h by (simp add: idle_handler_def)
qed

end
